theory Spec2Isabelle
  imports Main "HOL-Library.Word" "HOL-Library.Sublist"
begin

unbundle bit_operations_syntax

section \<open>Strings, values and errors\<close>

text \<open>
  A Go string is a sequence of bytes; it is modelled by \<^typ>\<open>string\<close>, a list of
  8-bit characters.  \<open>byte c\<close> is the numeric value of the byte \<open>c\<close>.
\<close>

definition byte :: "char \<Rightarrow> nat" where
  "byte c = of_char c"

text \<open>\<open>strconv.lower\<close>: \<open>c | ('x' - 'X')\<close>, that is, the byte with bit 5 set.\<close>

definition lower :: "char \<Rightarrow> char" where
  "lower c = char_of (byte c OR 32)"

text \<open>
  \<open>strings.ToLower\<close>.  On a string of ASCII bytes the library maps \<open>'A'..'Z'\<close> to
  \<open>'a'..'z'\<close> and leaves every other byte alone; that is what is modelled, byte by byte.
  On a string holding a byte \<open>\<ge> 0x80\<close> the library maps whole runes with
  \<open>unicode.ToLower\<close>; those bytes are left alone here.
\<close>

definition toLowerByte :: "char \<Rightarrow> char" where
  "toLowerByte c = (if 65 \<le> byte c \<and> byte c \<le> 90 then char_of (byte c + 32) else c)"

definition ToLower :: "string \<Rightarrow> string" where
  "ToLower s = map toLowerByte s"

text \<open>
  The sentinel errors \<open>strconv.ErrSyntax\<close> and \<open>strconv.ErrRange\<close>, and
  \<open>*strconv.NumError\<close> with its fields \<open>Func\<close>, \<open>Num\<close> and \<open>Err\<close>.
\<close>

datatype strconv_err = ErrSyntax | ErrRange

datatype NumError = NumError (Func: string) (Num: string) (Err: strconv_err)

definition syntaxError :: "string \<Rightarrow> string \<Rightarrow> NumError" where
  "syntaxError fn str = NumError fn str ErrSyntax"

definition rangeError :: "string \<Rightarrow> string \<Rightarrow> NumError" where
  "rangeError fn str = NumError fn str ErrRange"

text \<open>
  The errors built by \<open>fmt.Errorf\<close>.  With the verb \<open>%w\<close> the result wraps the
  operand: \<open>WrapError m e\<close> holds the text \<open>m\<close> that the format produces before the
  wrapped error, and the wrapped error \<open>e\<close>.  Without \<open>%w\<close> the result is a plain
  message, \<open>ErrorString m\<close>.
\<close>

datatype error = ErrorString string | WrapError string NumError

fun strconv_err_Error :: "strconv_err \<Rightarrow> string" where
  "strconv_err_Error ErrSyntax = ''invalid syntax''"
| "strconv_err_Error ErrRange = ''value out of range''"

text \<open>
  \<open>(*NumError).Error\<close>.  The library quotes the input with \<open>strconv.Quote\<close>, which
  is taken as the parameter \<open>quote\<close>.
\<close>

fun NumError_Error :: "(string \<Rightarrow> string) \<Rightarrow> NumError \<Rightarrow> string" where
  "NumError_Error quote (NumError fn str e) =
     ''strconv.'' @ fn @ '': parsing '' @ quote str @ '': '' @ strconv_err_Error e"

text \<open>The message of an error, \<open>err.Error()\<close>.\<close>

fun Error :: "(string \<Rightarrow> string) \<Rightarrow> error \<Rightarrow> string" where
  "Error quote (ErrorString m) = m"
| "Error quote (WrapError m e) = m @ NumError_Error quote e"

text \<open>
  A value of type \<open>interface{}\<close> as \<open>ConvertStringToType\<close> returns it: \<open>nil\<close>, or a
  \<open>string\<close>, a \<open>float64\<close> (its IEEE 754 bit pattern), an \<open>int64\<close> (two's
  complement, read by \<^const>\<open>sint\<close>) or a \<open>bool\<close>.
\<close>

datatype iface = VNil | VString string | VFloat64 "64 word" | VInt64 "64 word" | VBool bool

section \<open>\<open>strconv.ParseInt\<close> in base 10 with 64 bits\<close>

definition isDigit :: "char \<Rightarrow> bool" where
  "isDigit c = (48 \<le> byte c \<and> byte c \<le> 57)"

text \<open>
  The loop of \<open>strconv.ParseUint\<close> for \<open>base = 10\<close> and \<open>bitSize = 64\<close>, over the
  bytes not yet read and the accumulator \<open>n\<close> of type \<open>uint64\<close>.  Underscores are
  accepted only for \<open>base = 0\<close>, so here they end in the default case.
\<close>

definition cutoff10 :: "64 word" where
  "cutoff10 = 0xFFFFFFFFFFFFFFFF div 10 + 1"

definition maxVal64 :: "64 word" where
  "maxVal64 = 0xFFFFFFFFFFFFFFFF"

definition digitOf :: "char \<Rightarrow> nat option" where
  "digitOf c =
     (if 48 \<le> byte c \<and> byte c \<le> 57 then Some (byte c - 48)
      else if 97 \<le> byte (lower c) \<and> byte (lower c) \<le> 122 then Some (byte (lower c) - 97 + 10)
      else None)"

fun ParseUint_loop :: "string \<Rightarrow> 64 word \<Rightarrow> 64 word \<times> strconv_err option" where
  "ParseUint_loop [] n = (n, None)"
| "ParseUint_loop (c # cs) n =
     (case digitOf c of
        None \<Rightarrow> (0, Some ErrSyntax)
      | Some d \<Rightarrow>
          if d \<ge> 10 then (0, Some ErrSyntax)
          else if n \<ge> cutoff10 then (maxVal64, Some ErrRange)
          else
            let n10 = n * 10; n1 = n10 + of_nat d in
            if n1 < n10 \<or> n1 > maxVal64 then (maxVal64, Some ErrRange)
            else ParseUint_loop cs n1)"

definition ParseUint :: "string \<Rightarrow> 64 word \<times> NumError option" where
  "ParseUint s =
     (if s = [] then (0, Some (syntaxError ''ParseUint'' s))
      else case ParseUint_loop s 0 of
             (n, None) \<Rightarrow> (n, None)
           | (n, Some ErrSyntax) \<Rightarrow> (n, Some (syntaxError ''ParseUint'' s))
           | (n, Some ErrRange) \<Rightarrow> (n, Some (rangeError ''ParseUint'' s)))"

text \<open>
  \<open>strconv.ParseInt(s, 10, 64)\<close>: the sign is picked off, the rest goes through
  \<open>ParseUint\<close>, and the magnitude is checked against \<open>cutoff = 1 << 63\<close>.
\<close>

definition ParseInt :: "string \<Rightarrow> 64 word \<times> NumError option" where
  "ParseInt s0 =
     (if s0 = [] then (0, Some (syntaxError ''ParseInt'' s0))
      else
        let neg = (hd s0 = CHR ''-'');
            s = (if hd s0 = CHR ''+'' \<or> hd s0 = CHR ''-'' then tl s0 else s0);
            (un, err) = ParseUint s;
            cutoff = (push_bit 63 1 :: 64 word)
        in
        if err \<noteq> None \<and> Err (the err) \<noteq> ErrRange
          then (0, Some (NumError ''ParseInt'' s0 (Err (the err))))
        else if \<not> neg \<and> un \<ge> cutoff then (cutoff - 1, Some (rangeError ''ParseInt'' s0))
        else if neg \<and> un > cutoff then (- cutoff, Some (rangeError ''ParseInt'' s0))
        else (if neg then - un else un, None))"

section \<open>\<open>strconv.ParseFloat\<close> with 64 bits\<close>

subsection \<open>Underscores\<close>

text \<open>
  \<open>strconv.underscoreOK\<close>: underscores may stand only between digits, or between a base
  prefix and a digit.  \<open>saw\<close> is the kind of the last byte seen.
\<close>

datatype saw = SawStart | SawDigit | SawUnderscore | SawOther

fun underscoreOK_loop :: "bool \<Rightarrow> string \<Rightarrow> saw \<Rightarrow> bool" where
  "underscoreOK_loop hex [] sw = (sw \<noteq> SawUnderscore)"
| "underscoreOK_loop hex (c # cs) sw =
     (if isDigit c \<or> (hex \<and> 97 \<le> byte (lower c) \<and> byte (lower c) \<le> 102)
        then underscoreOK_loop hex cs SawDigit
      else if c = CHR ''_''
        then (if sw \<noteq> SawDigit then False else underscoreOK_loop hex cs SawUnderscore)
      else if sw = SawUnderscore then False
      else underscoreOK_loop hex cs SawOther)"

definition underscoreOK :: "string \<Rightarrow> bool" where
  "underscoreOK s0 =
     (let s = (if length s0 \<ge> 1 \<and> (hd s0 = CHR ''-'' \<or> hd s0 = CHR ''+'') then tl s0 else s0)
      in
      if length s \<ge> 2 \<and> hd s = CHR ''0'' \<and>
         (lower (s ! 1) = CHR ''b'' \<or> lower (s ! 1) = CHR ''o'' \<or> lower (s ! 1) = CHR ''x'')
        then underscoreOK_loop (lower (s ! 1) = CHR ''x'') (drop 2 s) SawDigit
        else underscoreOK_loop False s SawStart)"

subsection \<open>Infinities and NaN\<close>

fun commonPrefixLenIgnoreCase :: "string \<Rightarrow> string \<Rightarrow> nat" where
  "commonPrefixLenIgnoreCase (c # cs) (p # ps) =
     (if toLowerByte c \<noteq> p then 0 else Suc (commonPrefixLenIgnoreCase cs ps))"
| "commonPrefixLenIgnoreCase _ _ = 0"

text \<open>The bit patterns of \<open>math.Inf(1)\<close>, \<open>math.Inf(-1)\<close> and \<open>math.NaN()\<close>.\<close>

definition Inf_bits :: "bool \<Rightarrow> 64 word" where
  "Inf_bits neg = (if neg then 0xFFF0000000000000 else 0x7FF0000000000000)"

definition NaN_bits :: "64 word" where
  "NaN_bits = 0x7FF8000000000001"

text \<open>
  \<open>strconv.special\<close>: the float, the number of bytes read and whether one of
  \<open>inf\<close>, \<open>infinity\<close> (with an optional sign) or \<open>nan\<close> was read, in any case.
\<close>

definition special_inf :: "bool \<Rightarrow> nat \<Rightarrow> string \<Rightarrow> 64 word \<times> nat \<times> bool" where
  "special_inf neg nsign s =
     (let n0 = commonPrefixLenIgnoreCase s ''infinity'';
          n = (if 3 < n0 \<and> n0 < 8 then 3 else n0)
      in if n = 3 \<or> n = 8 then (Inf_bits neg, nsign + n, True) else (0, 0, False))"

definition special :: "string \<Rightarrow> 64 word \<times> nat \<times> bool" where
  "special s =
     (if s = [] then (0, 0, False)
      else if hd s = CHR ''+'' \<or> hd s = CHR ''-'' then special_inf (hd s = CHR ''-'') 1 (tl s)
      else if hd s = CHR ''i'' \<or> hd s = CHR ''I'' then special_inf False 0 s
      else if hd s = CHR ''n'' \<or> hd s = CHR ''N'' then
        (if commonPrefixLenIgnoreCase s ''nan'' = 3 then (NaN_bits, 3, True) else (0, 0, False))
      else (0, 0, False))"

subsection \<open>Reading the digits\<close>

text \<open>The local variables of \<open>strconv.readFloat\<close> that its digit loop updates.\<close>

record rf_state =
  mantissa :: "64 word"
  trunc :: bool
  sawdot :: bool
  sawdigits :: bool
  nd :: int
  ndMant :: int
  dp :: int
  underscores :: bool

definition rf_init :: rf_state where
  "rf_init = \<lparr> mantissa = 0, trunc = False, sawdot = False, sawdigits = False,
               nd = 0, ndMant = 0, dp = 0, underscores = False \<rparr>"

text \<open>
  The digit loop of \<open>readFloat\<close>, for \<open>base = 16\<close> when \<open>hex\<close> holds and \<open>base = 10\<close>
  otherwise; it returns the bytes left unread and the state.
\<close>

fun readFloat_digits :: "bool \<Rightarrow> string \<Rightarrow> rf_state \<Rightarrow> string \<times> rf_state" where
  "readFloat_digits hex [] st = ([], st)"
| "readFloat_digits hex (c # cs) st =
     (if c = CHR ''_'' then readFloat_digits hex cs (st\<lparr>underscores := True\<rparr>)
      else if c = CHR ''.'' then
        (if sawdot st then (c # cs, st)
         else readFloat_digits hex cs (st\<lparr>sawdot := True, dp := nd st\<rparr>))
      else if isDigit c then
        (if c = CHR ''0'' \<and> nd st = 0
           then readFloat_digits hex cs (st\<lparr>sawdigits := True, dp := dp st - 1\<rparr>)
         else if ndMant st < (if hex then 16 else 19)
           then readFloat_digits hex cs
                  (st\<lparr>sawdigits := True, nd := nd st + 1,
                      mantissa := mantissa st * (if hex then 16 else 10) + of_nat (byte c - 48),
                      ndMant := ndMant st + 1\<rparr>)
         else if c \<noteq> CHR ''0''
           then readFloat_digits hex cs (st\<lparr>sawdigits := True, nd := nd st + 1, trunc := True\<rparr>)
         else readFloat_digits hex cs (st\<lparr>sawdigits := True, nd := nd st + 1\<rparr>))
      else if hex \<and> 97 \<le> byte (lower c) \<and> byte (lower c) \<le> 102 then
        (if ndMant st < 16
           then readFloat_digits hex cs
                  (st\<lparr>sawdigits := True, nd := nd st + 1,
                      mantissa := mantissa st * 16 + of_nat (byte (lower c) - 97 + 10),
                      ndMant := ndMant st + 1\<rparr>)
         else readFloat_digits hex cs (st\<lparr>sawdigits := True, nd := nd st + 1, trunc := True\<rparr>))
      else (c # cs, st))"

text \<open>
  The exponent loop of \<open>readFloat\<close>: digits and underscores; the exponent stops growing
  once it has reached 10000.  It returns the bytes left unread, the exponent and whether
  an underscore was seen.
\<close>

fun readFloat_exp :: "string \<Rightarrow> int \<Rightarrow> bool \<Rightarrow> string \<times> int \<times> bool" where
  "readFloat_exp [] e us = ([], e, us)"
| "readFloat_exp (c # cs) e us =
     (if c = CHR ''_'' then readFloat_exp cs e True
      else if isDigit c then readFloat_exp cs (if e < 10000 then e * 10 + int (byte c) - 48 else e) us
      else (c # cs, e, us))"

text \<open>The results of \<open>readFloat\<close>; \<open>rest\<close> is the input from index \<open>i\<close> on.\<close>

record readFloat_result =
  r_mantissa :: "64 word"
  r_exp :: int
  r_neg :: bool
  r_trunc :: bool
  r_hex :: bool
  r_rest :: string
  r_ok :: bool

definition rf_fail :: "bool \<Rightarrow> bool \<Rightarrow> rf_state \<Rightarrow> string \<Rightarrow> readFloat_result" where
  "rf_fail neg hex st rest =
     \<lparr> r_mantissa = mantissa st, r_exp = 0, r_neg = neg, r_trunc = trunc st, r_hex = hex,
       r_rest = rest, r_ok = False \<rparr>"

text \<open>The end of \<open>readFloat\<close>, after the exponent: \<open>dp\<close> is final here.\<close>

definition readFloat_finish ::
  "string \<Rightarrow> bool \<Rightarrow> bool \<Rightarrow> rf_state \<Rightarrow> int \<Rightarrow> int \<Rightarrow> bool \<Rightarrow> string \<Rightarrow> readFloat_result" where
  "readFloat_finish s neg hex st dp1 ndMant1 us rest =
     (let ex = (if mantissa st \<noteq> 0 then dp1 - ndMant1 else 0) in
      if us \<and> \<not> underscoreOK (take (length s - length rest) s)
        then (rf_fail neg hex st rest)\<lparr>r_exp := ex\<rparr>
        else \<lparr> r_mantissa = mantissa st, r_exp = ex, r_neg = neg, r_trunc = trunc st,
               r_hex = hex, r_rest = rest, r_ok = True \<rparr>)"

definition readFloat :: "string \<Rightarrow> readFloat_result" where
  "readFloat s =
     (if s = [] then rf_fail False False rf_init s
      else
        let neg = (hd s = CHR ''-'');
            s1 = (if hd s = CHR ''+'' \<or> hd s = CHR ''-'' then tl s else s);
            hex = (2 < length s1 \<and> hd s1 = CHR ''0'' \<and> lower (s1 ! 1) = CHR ''x'');
            s2 = (if hex then drop 2 s1 else s1);
            (s3, st) = readFloat_digits hex s2 rf_init
        in
        if \<not> sawdigits st then rf_fail neg hex st s3
        else
          let dp0 = (if \<not> sawdot st then nd st else dp st);
              dp1 = (if hex then dp0 * 4 else dp0);
              ndMant1 = (if hex then ndMant st * 4 else ndMant st)
          in
          if s3 \<noteq> [] \<and> lower (hd s3) = (if hex then CHR ''p'' else CHR ''e'') then
            (let s4 = tl s3 in
             if s4 = [] then rf_fail neg hex st s4
             else
               let esign = (if hd s4 = CHR ''-'' then - 1 else 1 :: int);
                   s5 = (if hd s4 = CHR ''+'' \<or> hd s4 = CHR ''-'' then tl s4 else s4)
               in
               if s5 = [] \<or> \<not> isDigit (hd s5) then rf_fail neg hex st s5
               else
                 let (s6, e, us) = readFloat_exp s5 0 (underscores st)
                 in readFloat_finish s neg hex st (dp1 + e * esign) ndMant1 us s6)
          else if hex then rf_fail neg hex st s3
          else readFloat_finish s neg hex st dp1 ndMant1 (underscores st) s3)"

subsection \<open>Hexadecimal mantissa and exponent to bits\<close>

text \<open>
  The three loops of \<open>strconv.atofHex\<close> for \<open>float64\<close> (\<open>mantbits = 52\<close>,
  \<open>expbits = 11\<close>, \<open>bias = -1023\<close>).  The first shifts the mantissa left until a bit
  at position 54 or above is set.
\<close>

function hex_shl :: "64 word \<Rightarrow> int \<Rightarrow> 64 word \<times> int" where
  "hex_shl m e =
     (if m \<noteq> 0 \<and> drop_bit 54 m = 0 then hex_shl (push_bit 1 m) (e - 1) else (m, e))"
  by pat_completeness auto
termination
proof (relation "measure (\<lambda>(m, e). 2 ^ 64 - unat m)")
  fix m :: "64 word" and e :: int
  assume a: "m \<noteq> 0 \<and> drop_bit 54 m = 0"
  have "unat (drop_bit 54 m) = 0"
    using a by simp
  then have "unat m div 2 ^ 54 = 0"
    by (subst (asm) unat_drop_bit_eq) (simp only: drop_bit_eq_div)
  then have lt: "unat m < 2 ^ 54"
    by (simp add: div_eq_0_iff)
  have pos: "0 < unat m"
    using a by (simp add: unat_gt_0)
  have "unat (push_bit 1 m) = take_bit 64 (push_bit 1 (unat m))"
    by (simp only: unsigned_push_bit_eq) simp
  also have "\<dots> = 2 * unat m"
    unfolding push_bit_eq_mult by (subst take_bit_nat_eq_self) (use lt in simp_all)
  finally have "unat (push_bit 1 m) = 2 * unat m" .
  then show "((push_bit 1 m, e - 1), (m, e)) \<in> measure (\<lambda>(m, e). 2 ^ 64 - unat m)"
    using lt pos by simp
qed simp

declare hex_shl.simps [simp del]

text \<open>
  The second shifts it right while a bit at position 55 or above is set; a bit shifted
  out is kept in the lowest bit: \<open>mantissa = mantissa>>1 | mantissa&1\<close>.
\<close>

function hex_shr :: "64 word \<Rightarrow> int \<Rightarrow> 64 word \<times> int" where
  "hex_shr m e =
     (if drop_bit 55 m \<noteq> 0 then hex_shr (drop_bit 1 m OR (m AND 1)) (e + 1) else (m, e))"
  by pat_completeness auto
termination
proof (relation "measure (\<lambda>(m, e). unat m)")
  fix m :: "64 word" and e :: int
  assume a: "drop_bit 55 m \<noteq> 0"
  then have "unat (drop_bit 55 m) \<noteq> 0"
    by (simp only: unat_eq_0) simp
  then have "drop_bit 55 (unat m) \<noteq> 0"
    by (simp only: unat_drop_bit_eq not_False_eq_True)
  then have "\<not> unat m < 2 ^ 55"
    by (simp add: drop_bit_eq_div div_eq_0_iff)
  then have big: "1 < unat m"
    by simp
  have "unat (drop_bit 1 m OR (m AND 1)) = drop_bit 1 (unat m) OR (unat m AND 1)"
    by (simp only: unsigned_or_eq unat_drop_bit_eq unsigned_and_eq unsigned_1)
  also have "\<dots> = (if odd (unat m) \<and> even (unat m div 2) then unat m div 2 + 1 else unat m div 2)"
    by (auto simp add: or_Suc_0_eq and_one_eq drop_bit_eq_div mod_2_eq_odd)
  also have "\<dots> < unat m"
    using big by (auto; presburger)
  finally have "unat (drop_bit 1 m OR (m AND 1)) < unat m" .
  then show "((drop_bit 1 m OR (m AND 1), e + 1), (m, e)) \<in> measure (\<lambda>(m, e). unat m)"
    by simp
qed simp

declare hex_shr.simps [simp del]

text \<open>
  The third denormalises: while the exponent is below \<open>minExp - 2\<close>, with
  \<open>minExp = bias + 1 = -1022\<close>.
\<close>

function hex_denorm :: "64 word \<Rightarrow> int \<Rightarrow> 64 word \<times> int" where
  "hex_denorm m e =
     (if m > 1 \<and> e < - 1022 - 2 then hex_denorm (drop_bit 1 m OR (m AND 1)) (e + 1) else (m, e))"
  by pat_completeness auto
termination
proof (relation "measure (\<lambda>(m, e). unat m)")
  fix m :: "64 word" and e :: int
  assume a: "1 < m \<and> e < - 1022 - 2"
  then have big: "1 < unat m"
    by (simp add: word_less_nat_alt)
  have "unat (drop_bit 1 m OR (m AND 1)) = drop_bit 1 (unat m) OR (unat m AND 1)"
    by (simp only: unsigned_or_eq unat_drop_bit_eq unsigned_and_eq unsigned_1)
  also have "\<dots> = (if odd (unat m) \<and> even (unat m div 2) then unat m div 2 + 1 else unat m div 2)"
    by (auto simp add: or_Suc_0_eq and_one_eq drop_bit_eq_div mod_2_eq_odd)
  also have "\<dots> < unat m"
    using big by (auto; presburger)
  finally have "unat (drop_bit 1 m OR (m AND 1)) < unat m" .
  then show "((drop_bit 1 m OR (m AND 1), e + 1), (m, e)) \<in> measure (\<lambda>(m, e). unat m)"
    by simp
qed simp

declare hex_denorm.simps [simp del]

text \<open>
  \<open>strconv.atofHex\<close> for \<open>float64\<close>: the bits of the result and whether the exponent
  overflowed (the range error).  \<open>maxExp = 1<<11 + bias - 2 = 1023\<close>.
\<close>

definition atofHex :: "64 word \<Rightarrow> int \<Rightarrow> bool \<Rightarrow> bool \<Rightarrow> 64 word \<times> bool" where
  "atofHex mantissa0 exp0 neg trnc =
     (let (m1, e1) = hex_shl mantissa0 (exp0 + 52);
          m2 = (if trnc then m1 OR 1 else m1);
          (m3, e3) = hex_shr m2 e1;
          (m4, e4) = hex_denorm m3 e3;
          m5 = drop_bit 2 m4;
          rnd = (m4 AND 3) OR (m5 AND 1);
          e5 = e4 + 2;
          (m6, e6) = (if rnd = 3
                      then (if m5 + 1 = push_bit 53 1 then (drop_bit 1 (m5 + 1), e5 + 1)
                            else (m5 + 1, e5))
                      else (m5, e5));
          e7 = (if drop_bit 52 m6 = 0 then - 1023 else e6);
          ovf = (e7 > 1023);
          (m8, e8) = (if ovf then (push_bit 52 1, 1023 + 1) else (m6, e7));
          bits = (m8 AND (push_bit 52 1 - 1)) OR push_bit 52 (word_of_int ((e8 + 1023) AND 2047))
      in (if neg then bits OR push_bit 63 1 else bits, ovf))"

subsection \<open>Decimal digits and exponent to bits\<close>

text \<open>
  For decimal input \<open>strconv.atof64\<close> tries two fast conversions and falls back on
  the type \<open>decimal\<close>: \<open>decimal.set\<close> reads the digits again and
  \<open>decimal.floatBits\<close> rounds them.  The fast conversions return the float of the
  fallback whenever they apply, so the fallback alone is modelled.

  \<open>decimal.set\<close>: the digits \<open>d\<close> read as one number (the library keeps the first
  800 and notes whether a later one was not zero), their count \<open>nd\<close> and the position
  \<open>dp\<close> of the decimal point.
\<close>

record dec_state =
  d_digits :: nat
  d_nd :: int
  d_dp :: int
  d_sawdot :: bool
  d_sawdigits :: bool

definition dec_init :: dec_state where
  "dec_init = \<lparr> d_digits = 0, d_nd = 0, d_dp = 0, d_sawdot = False, d_sawdigits = False \<rparr>"

text \<open>The digit loop of \<open>decimal.set\<close>; \<open>None\<close> where it returns \<open>false\<close>.\<close>

fun decimal_set_digits :: "string \<Rightarrow> dec_state \<Rightarrow> (string \<times> dec_state) option" where
  "decimal_set_digits [] st = Some ([], st)"
| "decimal_set_digits (c # cs) st =
     (if c = CHR ''_'' then decimal_set_digits cs st
      else if c = CHR ''.'' then
        (if d_sawdot st then None
         else decimal_set_digits cs (st\<lparr>d_sawdot := True, d_dp := d_nd st\<rparr>))
      else if isDigit c then
        (if c = CHR ''0'' \<and> d_nd st = 0
           then decimal_set_digits cs (st\<lparr>d_sawdigits := True, d_dp := d_dp st - 1\<rparr>)
         else decimal_set_digits cs
                (st\<lparr>d_sawdigits := True, d_digits := d_digits st * 10 + (byte c - 48),
                    d_nd := d_nd st + 1\<rparr>))
      else Some (c # cs, st))"

text \<open>
  \<open>decimal.set\<close>: the digits and the power of ten they are multiplied by, or \<open>None\<close>
  where the input is not a decimal number to its end.
\<close>

definition decimal_set :: "string \<Rightarrow> (nat \<times> int) option" where
  "decimal_set s =
     (if s = [] then None
      else
        let s1 = (if hd s = CHR ''+'' \<or> hd s = CHR ''-'' then tl s else s) in
        case decimal_set_digits s1 dec_init of
          None \<Rightarrow> None
        | Some (s3, st) \<Rightarrow>
            if \<not> d_sawdigits st then None
            else
              let dp0 = (if \<not> d_sawdot st then d_nd st else d_dp st) in
              if s3 \<noteq> [] \<and> lower (hd s3) = CHR ''e'' then
                (let s4 = tl s3 in
                 if s4 = [] then None
                 else
                   let esign = (if hd s4 = CHR ''-'' then - 1 else 1 :: int);
                       s5 = (if hd s4 = CHR ''+'' \<or> hd s4 = CHR ''-'' then tl s4 else s4)
                   in
                   if s5 = [] \<or> \<not> isDigit (hd s5) then None
                   else
                     let (s6, e, us) = readFloat_exp s5 0 False in
                     if s6 \<noteq> [] then None
                     else Some (d_digits st, dp0 + e * esign - d_nd st))
              else if s3 \<noteq> [] then None
              else Some (d_digits st, dp0 - d_nd st))"

text \<open>
  The nearest integer to \<open>num / den\<close>, a tie going to the even one, for \<open>den > 0\<close>.
\<close>

definition rne_div :: "nat \<Rightarrow> nat \<Rightarrow> nat" where
  "rne_div num den =
     (let q = num div den; r = num mod den in
      if 2 * r < den then q
      else if 2 * r > den then q + 1
      else if even q then q else q + 1)"

text \<open>The position of the highest bit set: \<open>2 ^ ilog2 n \<le> n < 2 ^ (ilog2 n + 1)\<close> for \<open>n > 0\<close>.\<close>

fun ilog2 :: "nat \<Rightarrow> nat" where
  "ilog2 n = (if n < 2 then 0 else Suc (ilog2 (n div 2)))"

declare ilog2.simps [simp del]

text \<open>
  \<open>decimal.floatBits\<close> for \<open>float64\<close>, modelled by what \<open>ParseFloat\<close> documents of its
  result: the float nearest to \<open>d * 10 ^ x\<close>, rounded with IEEE 754 unbiased rounding,
  and infinity with a range error when that float would be more than half a unit in the
  last place beyond the largest one.  The result is the bit pattern without its sign and
  whether the value overflowed.

  With \<open>k\<close> the binary exponent of the value, the mantissa is the value divided by
  \<open>2 ^ p\<close>, rounded, where \<open>p = k - 52\<close> for a normal number and \<open>p = -1074\<close> for a
  denormal one.
\<close>

definition ge_pow2 :: "nat \<Rightarrow> nat \<Rightarrow> int \<Rightarrow> bool" where
  "ge_pow2 num den k = (if k \<ge> 0 then den * 2 ^ nat k \<le> num else den \<le> num * 2 ^ nat (- k))"

definition binary_exponent :: "nat \<Rightarrow> nat \<Rightarrow> int" where
  "binary_exponent num den =
     (let k0 = int (ilog2 num) - int (ilog2 den) in if ge_pow2 num den k0 then k0 else k0 - 1)"

definition scaled_mantissa :: "nat \<Rightarrow> nat \<Rightarrow> int \<Rightarrow> nat" where
  "scaled_mantissa num den p =
     (if p \<ge> 0 then rne_div num (den * 2 ^ nat p) else rne_div (num * 2 ^ nat (- p)) den)"

definition encode_bits :: "nat \<Rightarrow> int \<Rightarrow> 64 word \<times> bool" where
  "encode_bits m p =
     (if p > 971 then (Inf_bits False, True)
      else if m < 2 ^ 52 then (word_of_nat m, False)
      else (word_of_nat (m - 2 ^ 52) OR push_bit 52 (word_of_int (p + 1075)), False))"

definition round_ratio :: "nat \<Rightarrow> nat \<Rightarrow> 64 word \<times> bool" where
  "round_ratio num den =
     (let p = max (binary_exponent num den - 52) (- 1074);
          m = scaled_mantissa num den p
      in if m = 2 ^ 53 then encode_bits (2 ^ 52) (p + 1) else encode_bits m p)"

definition floatBits :: "nat \<Rightarrow> int \<Rightarrow> 64 word \<times> bool" where
  "floatBits d x =
     (if d = 0 then (0, False)
      else if x \<ge> 0 then round_ratio (d * 10 ^ nat x) 1
      else round_ratio d (10 ^ nat (- x)))"

subsection \<open>\<open>ParseFloat\<close>\<close>

text \<open>
  \<open>strconv.atof64\<close>: the float, the number of bytes read and the error.
\<close>

definition atof64 :: "string \<Rightarrow> 64 word \<times> nat \<times> NumError option" where
  "atof64 s =
     (case special s of
        (v, n, True) \<Rightarrow> (v, n, None)
      | (v, n, False) \<Rightarrow>
          let r = readFloat s; n = length s - length (r_rest r) in
          if \<not> r_ok r then (0, n, Some (syntaxError ''ParseFloat'' s))
          else if r_hex r then
            (let (f, ovf) = atofHex (r_mantissa r) (r_exp r) (r_neg r) (r_trunc r)
             in (f, n, if ovf then Some (rangeError ''ParseFloat'' (take n s)) else None))
          else
            case decimal_set (take n s) of
              None \<Rightarrow> (0, n, Some (syntaxError ''ParseFloat'' s))
            | Some (d, x) \<Rightarrow>
                let (b, ovf) = floatBits d x;
                    f = (if r_neg r then b OR push_bit 63 1 else b)
                in (f, n, if ovf then Some (rangeError ''ParseFloat'' s) else None))"

text \<open>\<open>strconv.ParseFloat(s, 64)\<close>: the whole of \<open>s\<close> must have been read.\<close>

definition ParseFloat :: "string \<Rightarrow> 64 word \<times> NumError option" where
  "ParseFloat s =
     (let (f, n, err) = atof64 s in
      if n \<noteq> length s \<and> (err = None \<or> Err (the err) \<noteq> ErrSyntax)
        then (0, Some (syntaxError ''ParseFloat'' s))
        else (f, err))"

section \<open>\<open>ConvertStringToType\<close>\<close>

text \<open>
  \<open>ConvertStringToType\<close> of \<open>pkg/common/types.go\<close>.  It returns a pair
  \<open>(interface{}, error)\<close>; a \<open>nil\<close> error is \<open>None\<close>.
\<close>

definition ConvertStringToType :: "string \<Rightarrow> string \<Rightarrow> iface \<times> error option" where
  "ConvertStringToType value paramType0 =
     (let paramType = (if paramType0 = [] then ''string'' else paramType0) in
      if paramType = ''string'' then (VString value, None)
      else if paramType = ''number'' then
        (case ParseFloat value of
           (floatVal, Some err) \<Rightarrow>
             (VNil, Some (WrapError (''failed to parse '' @ [CHR 0x27] @ value @ [CHR 0x27] @ '' as number: '') err))
         | (floatVal, None) \<Rightarrow> (VFloat64 floatVal, None))
      else if paramType = ''integer'' then
        (case ParseInt value of
           (intVal, Some err) \<Rightarrow>
             (VNil, Some (WrapError (''failed to parse '' @ [CHR 0x27] @ value @ [CHR 0x27] @ '' as integer: '') err))
         | (intVal, None) \<Rightarrow> (VInt64 intVal, None))
      else if paramType = ''boolean'' then
        (let lowerVal = ToLower value in
         if lowerVal \<in> set [''true'', ''t'', ''yes'', ''y'', ''1''] then (VBool True, None)
         else if lowerVal \<in> set [''false'', ''f'', ''no'', ''n'', ''0''] then (VBool False, None)
         else (VNil, Some (ErrorString (''failed to parse '' @ [CHR 0x27] @ value @ [CHR 0x27] @ '' as boolean''))))
      else (VNil, Some (ErrorString (''unsupported parameter type: '' @ paramType))))"

section \<open>The two kinds of failure\<close>

text \<open>
  The code builds both kinds of failure with \<open>fmt.Errorf\<close>; they differ in their
  message only.  A conversion error is one whose message starts with
  \<open>failed to parse '\<close>, an unsupported-type error one whose message starts with
  \<open>unsupported parameter type: \<close>.
\<close>

fun error_text :: "error \<Rightarrow> string" where
  "error_text (ErrorString m) = m"
| "error_text (WrapError m e) = m"

definition is_ConversionError :: "error \<Rightarrow> bool" where
  "is_ConversionError e = prefix (''failed to parse '' @ [CHR 0x27]) (error_text e)"

definition is_UnsupportedTypeError :: "error \<Rightarrow> bool" where
  "is_UnsupportedTypeError e = prefix ''unsupported parameter type: '' (error_text e)"

definition truthy :: "string set" where
  "truthy = {''true'', ''t'', ''yes'', ''y'', ''1''}"

definition falsy :: "string set" where
  "falsy = {''false'', ''f'', ''no'', ''n'', ''0''}"

text \<open>
  The type a returned value has, against the declared type: a \<open>string\<close> for the empty
  type and \<open>string\<close>, a \<open>float64\<close> for \<open>number\<close>, an \<open>int64\<close> for \<open>integer\<close>, a
  \<open>bool\<close> for \<open>boolean\<close>; \<open>nil\<close> has none.
\<close>

definition has_declared_type :: "string \<Rightarrow> iface \<Rightarrow> bool" where
  "has_declared_type paramType v =
     (case v of
        VNil \<Rightarrow> False
      | VString x \<Rightarrow> paramType = [] \<or> paramType = ''string''
      | VFloat64 x \<Rightarrow> paramType = ''number''
      | VInt64 x \<Rightarrow> paramType = ''integer''
      | VBool x \<Rightarrow> paramType = ''boolean'')"

text \<open>
  The specification's \<open>standard decimal/exponential numeric syntax\<close>, in its words: an
  optional sign, decimal digits with an optional point among them (at least one digit),
  and an optional exponent made of \<open>e\<close> or \<open>E\<close>, an optional sign and decimal digits.
\<close>

definition is_sign :: "char \<Rightarrow> bool" where
  "is_sign c = (c = CHR ''+'' \<or> c = CHR ''-'')"

definition spec_exponent :: "string \<Rightarrow> bool" where
  "spec_exponent r =
     (if r = [] then True
      else (hd r = CHR ''e'' \<or> hd r = CHR ''E'') \<and>
           (let ds = (if tl r \<noteq> [] \<and> is_sign (hd (tl r)) then tl (tl r) else tl r)
            in ds \<noteq> [] \<and> list_all isDigit ds))"

definition spec_decimal_literal :: "string \<Rightarrow> bool" where
  "spec_decimal_literal s =
     (let s1 = (if s \<noteq> [] \<and> is_sign (hd s) then tl s else s);
          ip = takeWhile isDigit s1;
          r1 = dropWhile isDigit s1;
          dot = (r1 \<noteq> [] \<and> hd r1 = CHR ''.'');
          fp = (if dot then takeWhile isDigit (tl r1) else []);
          r2 = (if dot then dropWhile isDigit (tl r1) else r1)
      in ip @ fp \<noteq> [] \<and> spec_exponent r2)"

section \<open>Properties\<close>


lemma sublist_Error_ErrorString:
  "sublist v (Error quote (ErrorString (a @ v @ b)))"
  by (simp add: sublist_appendI)

text \<open>
  C4.  For every value, the type \<open>string\<close> and the empty type both succeed with the
  value unchanged, so they give the same result.
\<close>

theorem string_type_identity:
  "ConvertStringToType value ''string'' = (VString value, None) \<and>
   ConvertStringToType value [] = (VString value, None) \<and>
   ConvertStringToType value [] = ConvertStringToType value ''string''"
  by (simp add: ConvertStringToType_def)

text \<open>
  C2.  For the type \<open>boolean\<close> the result is \<open>true\<close> exactly when the lowercased
  value is one of \<open>true\<close>, \<open>t\<close>, \<open>yes\<close>, \<open>y\<close>, \<open>1\<close>, it is \<open>false\<close> exactly when the
  lowercased value is one of \<open>false\<close>, \<open>f\<close>, \<open>no\<close>, \<open>n\<close>, \<open>0\<close>, and it is a conversion
  error exactly when it is neither; the whole string is compared.  \<open>Yes\<close> gives
  \<open>true\<close>, \<open>N\<close> gives \<open>false\<close> and \<open>maybe\<close> fails.
\<close>

theorem boolean_token_sets:
  "(ConvertStringToType value ''boolean'' = (VBool True, None) \<longleftrightarrow> ToLower value \<in> truthy) \<and>
   (ConvertStringToType value ''boolean'' = (VBool False, None) \<longleftrightarrow> ToLower value \<in> falsy) \<and>
   ((\<exists>e. ConvertStringToType value ''boolean'' = (VNil, Some e) \<and> is_ConversionError e)
      \<longleftrightarrow> ToLower value \<notin> truthy \<union> falsy) \<and>
   ConvertStringToType ''Yes'' ''boolean'' = (VBool True, None) \<and>
   ConvertStringToType ''N'' ''boolean'' = (VBool False, None) \<and>
   (\<exists>e. ConvertStringToType ''maybe'' ''boolean'' = (VNil, Some e) \<and> is_ConversionError e)"
proof -
  have general:
    "(ConvertStringToType v ''boolean'' = (VBool True, None) \<longleftrightarrow> ToLower v \<in> truthy) \<and>
     (ConvertStringToType v ''boolean'' = (VBool False, None) \<longleftrightarrow> ToLower v \<in> falsy) \<and>
     ((\<exists>e. ConvertStringToType v ''boolean'' = (VNil, Some e) \<and> is_ConversionError e)
        \<longleftrightarrow> ToLower v \<notin> truthy \<union> falsy)" for v
    by (auto simp add: ConvertStringToType_def truthy_def falsy_def is_ConversionError_def Let_def)
  have "ToLower ''Yes'' = ''yes''" and "ToLower ''N'' = ''n''" and "ToLower ''maybe'' = ''maybe''"
    by code_simp+
  then have yes: "ToLower ''Yes'' \<in> truthy" and n: "ToLower ''N'' \<in> falsy"
    and maybe: "ToLower ''maybe'' \<notin> truthy \<union> falsy"
    by (simp_all add: truthy_def falsy_def)
  show ?thesis
    using general [of "value"] general [of "''Yes''"] general [of "''N''"] general [of "''maybe''"]
      yes n maybe
    by blast
qed

text \<open>
  C5.  For every value, a type other than the empty one, \<open>string\<close>, \<open>number\<close>,
  \<open>integer\<close> and \<open>boolean\<close> fails with an unsupported-type error whose message
  holds the type.
\<close>

theorem unsupported_type_named:
  assumes "paramType \<notin> {[], ''string'', ''number'', ''integer'', ''boolean''}"
  shows "\<exists>e. ConvertStringToType value paramType = (VNil, Some e) \<and>
             is_UnsupportedTypeError e \<and> sublist paramType (Error quote e)"
proof -
  have "ConvertStringToType value paramType =
          (VNil, Some (ErrorString (''unsupported parameter type: '' @ paramType)))"
    using assms by (simp add: ConvertStringToType_def)
  moreover have "sublist paramType (Error quote (ErrorString (''unsupported parameter type: '' @ paramType)))"
    using sublist_Error_ErrorString [of paramType quote "''unsupported parameter type: ''" "[]"]
    by simp
  ultimately show ?thesis
    by (simp add: is_UnsupportedTypeError_def)
qed

theorem unsupported_type_named_witness:
  "''enum'' \<notin> {[], ''string'', ''number'', ''integer'', ''boolean''} \<and>
   (\<exists>e. ConvertStringToType ''x'' ''enum'' = (VNil, Some e) \<and>
        is_UnsupportedTypeError e \<and> sublist ''enum'' (Error id e))"
  using unsupported_type_named [of "''enum''" "''x''" id] by simp




text \<open>Facts that evaluate the model on a given input.\<close>

lemmas float_eval = floatBits_def round_ratio_def encode_bits_def scaled_mantissa_def
  binary_exponent_def ge_pow2_def ilog2.simps rne_div_def Let_def

lemmas convert_eval = ConvertStringToType_def ParseFloat_def atof64_def special_def
  special_inf_def Inf_bits_def NaN_bits_def readFloat_def readFloat_finish_def rf_fail_def
  rf_init_def underscoreOK_def atofHex_def hex_shl.simps hex_shr.simps hex_denorm.simps
  decimal_set_def dec_init_def ParseInt_def ParseUint_def digitOf_def cutoff10_def
  maxVal64_def syntaxError_def rangeError_def isDigit_def byte_def lower_def toLowerByte_def
  ToLower_def char_of_eq_iff Let_def

lemmas literal_eval = spec_decimal_literal_def spec_exponent_def is_sign_def isDigit_def
  byte_def Let_def

text \<open>
  C9.  The value returned is \<open>nil\<close> exactly when the error is not: a failure returns
  \<open>nil\<close>, and a success returns a value of the declared type, also for the empty string
  under the type \<open>string\<close>.
\<close>

theorem nil_value_iff_error:
  "(fst (ConvertStringToType value paramType) = VNil \<longleftrightarrow>
      snd (ConvertStringToType value paramType) \<noteq> None) \<and>
   (snd (ConvertStringToType value paramType) = None \<longrightarrow>
      has_declared_type paramType (fst (ConvertStringToType value paramType))) \<and>
   ConvertStringToType [] ''string'' = (VString [], None)"
  by (auto simp add: ConvertStringToType_def has_declared_type_def Let_def
        split: prod.splits option.splits)

theorem nil_value_iff_error_witness:
  "snd (ConvertStringToType ''42'' ''integer'') = None \<and>
   has_declared_type ''integer'' (fst (ConvertStringToType ''42'' ''integer''))"
proof -
  have "ConvertStringToType ''42'' ''integer'' = (VInt64 42, None)"
    by (simp add: convert_eval)
  then show ?thesis
    using nil_value_iff_error [of "''42''" "''integer''"] by simp
qed



text \<open>
  C10.  \<open>Inf\<close>, \<open>NaN\<close>, the hexadecimal literal \<open>0x1p-2\<close> and \<open>1_000\<close>, with an
  underscore between digits, are not decimal or exponential literals, and the type
  \<open>number\<close> converts each of them: to infinity, to a NaN, to 0.25 and to 1000.
\<close>

theorem number_accepts_more_than_decimal:
  "\<not> spec_decimal_literal ''Inf'' \<and>
   ConvertStringToType ''Inf'' ''number'' = (VFloat64 0x7FF0000000000000, None) \<and>
   \<not> spec_decimal_literal ''NaN'' \<and>
   ConvertStringToType ''NaN'' ''number'' = (VFloat64 0x7FF8000000000001, None) \<and>
   \<not> spec_decimal_literal ''0x1p-2'' \<and>
   ConvertStringToType ''0x1p-2'' ''number'' = (VFloat64 0x3FD0000000000000, None) \<and>
   \<not> spec_decimal_literal ''1_000'' \<and>
   ConvertStringToType ''1_000'' ''number'' = (VFloat64 0x408F400000000000, None)"
proof -
  have "\<not> spec_decimal_literal ''Inf''" and "\<not> spec_decimal_literal ''NaN''"
    and "\<not> spec_decimal_literal ''0x1p-2''" and "\<not> spec_decimal_literal ''1_000''"
    by (simp_all add: literal_eval)
  moreover have "ConvertStringToType ''Inf'' ''number'' = (VFloat64 0x7FF0000000000000, None)"
    by (simp add: convert_eval)
  moreover have "ConvertStringToType ''NaN'' ''number'' = (VFloat64 0x7FF8000000000001, None)"
    by (simp add: convert_eval)
  moreover have "ConvertStringToType ''0x1p-2'' ''number'' = (VFloat64 0x3FD0000000000000, None)"
    by (simp add: convert_eval)
  moreover have "ConvertStringToType ''1_000'' ''number'' = (VFloat64 0x408F400000000000, None)"
    by (simp add: convert_eval float_eval)
  ultimately show ?thesis
    by blast
qed

text \<open>
  C1, as stated, fails at \<open>Infinity\<close>: it is not a decimal or exponential literal, and
  the type \<open>number\<close> converts it.
\<close>

theorem number_decimal_only_counterexample:
  "\<not> spec_decimal_literal ''Infinity'' \<and>
   ConvertStringToType ''Infinity'' ''number'' = (VFloat64 0x7FF0000000000000, None)"
proof -
  have "\<not> spec_decimal_literal ''Infinity''"
    by (simp add: literal_eval)
  moreover have "ConvertStringToType ''Infinity'' ''number'' = (VFloat64 0x7FF0000000000000, None)"
    by (simp add: convert_eval)
  ultimately show ?thesis
    by blast
qed

end
